theory Spec2Isabelle
  imports Complex_Main
begin

section \<open>Numbers and library primitives\<close>

text \<open>
  The recommender computes with Python integers (ratings, counters) and with numpy
  floating-point numbers (similarities, biases, averages).  Integers are modelled by
  \<open>int\<close> and \<open>nat\<close>, floating-point numbers by \<open>real\<close>: rounding errors of the
  floating-point arithmetic are outside this model.  What is inside it are the places where
  the program divides by a quantity that can be zero: Python's own division raises
  \<open>ZeroDivisionError\<close>, numpy's \<open>average\<close> raises the same exception when the weights
  sum to zero, and a numpy division yields \<open>nan\<close> or an infinity.
\<close>

datatype pyerr = ZeroDivisionError | IndexError

text \<open>A numpy float that may be \<open>nan\<close> or infinite.\<close>

datatype npfloat = Fin real | PInf | NInf | NaN

text \<open>
  The comparison \<open>a < b\<close> on such numbers: every comparison with \<open>nan\<close> is false.
\<close>

fun np_lt :: "npfloat \<Rightarrow> npfloat \<Rightarrow> bool" where
  "np_lt NaN _ = False"
| "np_lt _ NaN = False"
| "np_lt (Fin a) (Fin b) = (a < b)"
| "np_lt (Fin a) PInf = True"
| "np_lt (Fin a) NInf = False"
| "np_lt PInf _ = False"
| "np_lt NInf NInf = False"
| "np_lt NInf _ = True"

text \<open>numpy's division of two finite numbers: \<open>0/0\<close> is \<open>nan\<close>, \<open>a/0\<close> an infinity.\<close>

definition np_div :: "real \<Rightarrow> real \<Rightarrow> npfloat" where
  "np_div a b =
     (if b \<noteq> 0 then Fin (a / b)
      else if a = 0 then NaN else if 0 < a then PInf else NInf)"

text \<open>Adding a finite number to a numpy float.\<close>

fun np_add :: "npfloat \<Rightarrow> real \<Rightarrow> npfloat" where
  "np_add (Fin a) b = Fin (a + b)"
| "np_add PInf b = PInf"
| "np_add NInf b = NInf"
| "np_add NaN b = NaN"

text \<open>
  Python's builtin \<open>min(a, b)\<close> and \<open>max(a, b)\<close>: the first argument is kept unless the
  second one compares strictly smaller (larger).
\<close>

definition py_min :: "npfloat \<Rightarrow> npfloat \<Rightarrow> npfloat" where
  "py_min a b = (if np_lt b a then b else a)"

definition py_max :: "npfloat \<Rightarrow> npfloat \<Rightarrow> npfloat" where
  "py_max a b = (if np_lt a b then b else a)"

text \<open>
  Python 3's \<open>round\<close> with one argument rounds to the nearest integer and a tie to the
  even neighbour; \<open>int(round(x))\<close> is that integer.
\<close>

definition py_round :: "real \<Rightarrow> int" where
  "py_round x =
     (let f = \<lfloor>x\<rfloor>; d = x - of_int f
      in if d < 1/2 then f else if 1/2 < d then f + 1
         else if even f then f else f + 1)"

text \<open>
  \<open>np.average(a, weights=w)\<close> is \<open>sum(a*w) / sum(w)\<close> and raises \<open>ZeroDivisionError\<close>
  when the weights sum to zero; without weights it is the arithmetic mean.
\<close>

definition np_average_w :: "real list \<Rightarrow> real list \<Rightarrow> pyerr + real" where
  "np_average_w a w =
     (if sum_list w = 0 then Inl ZeroDivisionError
      else Inr (sum_list (map2 (*) a w) / sum_list w))"


text \<open>
  \<open>sorted(xs, key=f, reverse=True)\<close>: descending by key and stable, elements with equal
  keys keep their original order (Python reverses, sorts stably, and reverses again).
\<close>

definition py_sorted_rev :: "('a \<Rightarrow> real) \<Rightarrow> 'a list \<Rightarrow> 'a list" where
  "py_sorted_rev f xs = rev (sort_key f (rev xs))"

text \<open>
  \<open>scipy.spatial.distance.cosine(u, v)\<close>, the cosine distance
  \<open>1 - u\<cdot>v / (\<parallel>u\<parallel> \<parallel>v\<parallel>)\<close>.
\<close>

definition cosine :: "real list \<Rightarrow> real list \<Rightarrow> real" where
  "cosine u v =
     1 - sum_list (map2 (*) u v)
         / (sqrt (sum_list (map (\<lambda>a. a * a) u)) * sqrt (sum_list (map (\<lambda>b. b * b) v)))"

section \<open>The base class \<open>Algo\<close>\<close>

text \<open>
  The rating matrix \<open>rm\<close> is a dense integer array, \<open>0\<close> meaning unrated; it is modelled
  by the function from its two indices to the entry.  Entity identifiers passed to the
  program are taken to lie inside the arrays.  The module \<open>common\<close> provides the largest
  user and movie identifiers.
\<close>

type_synonym ratmat = "nat \<Rightarrow> nat \<Rightarrow> int"

record cmn =
  lastUi :: nat
  lastMi :: nat

text \<open>
  An adjacency dictionary maps an entity to the list of its (partner, rating) pairs.
  \<open>dkeys\<close> is the order in which \<open>items()\<close> enumerates the keys, \<open>dget d x\<close> is \<open>d[x]\<close>.
\<close>

record adjdict =
  dkeys :: "nat list"
  dget :: "nat \<Rightarrow> (nat \<times> int) list"

definition items :: "adjdict \<Rightarrow> (nat \<times> (nat \<times> int) list) list" where
  "items d = map (\<lambda>x. (x, dget d x)) (dkeys d)"

text \<open>
  The fields of an \<open>Algo\<close> object.  The constructor stores its arguments \<open>ur\<close> and \<open>mr\<close>
  whatever they are, so the record is polymorphic in their type.  The diagnostic fields
  \<open>withDump\<close> and \<open>infos\<close> are left out.
\<close>

record 'a Algo =
  ub :: bool
  rm :: ratmat
  lastXi :: nat
  lastYi :: nat
  xr :: 'a
  yr :: 'a
  est :: real
  preds :: "(real \<times> real) list"
  nImp :: nat
  mae :: real
  rmse :: real
  accRate :: real

text \<open>
  \<open>Algo.__init__(self, rm, ur, mr, movieBased)\<close>.  The first argument is the object so
  far: \<open>None\<close> for a fresh one, \<open>Some s\<close> when the attribute \<open>initialized\<close> is already
  set, in which case the constructor returns at once.
\<close>

definition Algo_init ::
  "'a Algo option \<Rightarrow> cmn \<Rightarrow> ratmat \<Rightarrow> 'a \<Rightarrow> 'a \<Rightarrow> bool \<Rightarrow> 'a Algo" where
  "Algo_init self c rm0 ur mr movieBased =
     (case self of
        Some s \<Rightarrow> s
      | None \<Rightarrow>
          (if \<not> movieBased
           then \<lparr>ub = True, rm = (\<lambda>x y. rm0 y x), lastXi = lastUi c, lastYi = lastMi c,
                 xr = ur, yr = mr,
                 est = 0, preds = [], nImp = 0, mae = 0, rmse = 0, accRate = 0\<rparr>
           else \<lparr>ub = False, rm = rm0, lastXi = lastMi c, lastYi = lastUi c,
                 xr = mr, yr = ur,
                 est = 0, preds = [], nImp = 0, mae = 0, rmse = 0, accRate = 0\<rparr>))"

definition getx0y0 :: "('a, 'z) Algo_scheme \<Rightarrow> nat \<Rightarrow> nat \<Rightarrow> nat \<times> nat" where
  "getx0y0 s u0 m0 = (if ub s then (u0, m0) else (m0, u0))"

text \<open>
  Each \<open>estimate\<close> method leaves its result in \<open>self.est\<close>; it is modelled by the
  function that returns this value.  \<open>updatePreds\<close> (without its console output) then
  records the estimate held in \<open>est\<close>, replacing the sentinel \<open>0\<close> by the default \<open>3\<close>.
\<close>

definition updatePreds :: "('a, 'z) Algo_scheme \<Rightarrow> real \<Rightarrow> ('a, 'z) Algo_scheme" where
  "updatePreds s r0 =
     (let s1 = (if est s = 0 then s\<lparr>nImp := nImp s + 1, est := 3\<rparr> else s)
      in s1\<lparr>preds := preds s1 @ [(est s1, r0)]\<rparr>)"

text \<open>
  \<open>makeStats\<close>: one pass over \<open>preds\<close> accumulates the squared and absolute errors and
  the two counters; the three divisions raise \<open>ZeroDivisionError\<close> when nothing was
  predicted.
\<close>

definition stats_step ::
  "real \<times> real \<times> nat \<times> nat \<Rightarrow> real \<times> real \<Rightarrow> real \<times> real \<times> nat \<times> nat" where
  "stats_step acc p =
     (case acc of (sumSqErr, sumAbsErr, nOK, nKO) \<Rightarrow>
      case p of (e, r0) \<Rightarrow>
        (sumSqErr + (r0 - e)\<^sup>2, sumAbsErr + \<bar>r0 - e\<bar>,
         if e = r0 then nOK + 1 else nOK, if e = r0 then nKO else nKO + 1))"

definition makeStats :: "('a, 'z) Algo_scheme \<Rightarrow> pyerr + ('a, 'z) Algo_scheme" where
  "makeStats s =
     (case foldl stats_step (0, 0, 0, 0) (preds s) of
        (sumSqErr, sumAbsErr, nOK, nKO) \<Rightarrow>
          if nOK + nKO = 0 then Inl ZeroDivisionError
          else Inr (s\<lparr>rmse := sqrt (sumSqErr / real (nOK + nKO)),
                      mae := sqrt (sumAbsErr / real (nOK + nKO)),
                      accRate := real nOK / real (nOK + nKO)\<rparr>))"

text \<open>The mean absolute error of a list of (estimate, actual) pairs, for comparison.\<close>

definition mean_abs_error :: "(real \<times> real) list \<Rightarrow> real" where
  "mean_abs_error ps = sum_list (map (\<lambda>(e, r0). \<bar>r0 - e\<bar>) ps) / real (length ps)"

section \<open>The random predictor\<close>

text \<open>Arguments of a constructor that are \<open>None\<close> or a truth value.\<close>

datatype pyarg = PyNone | PyBool bool

record AlgoRandom = "pyarg Algo" +
  distrib :: "(int \<times> real) list"

text \<open>
  \<open>fqs[r - 1] += 1\<close> for a rating \<open>r > 0\<close>; the list has five entries, so a rating
  above five raises \<open>IndexError\<close>.
\<close>

definition count_rating :: "nat list \<Rightarrow> int \<Rightarrow> pyerr + nat list" where
  "count_rating fqs r =
     (if r - 1 < int (length fqs)
      then Inr (fqs[nat (r - 1) := fqs ! nat (r - 1) + 1])
      else Inl IndexError)"

fun count_row :: "ratmat \<Rightarrow> nat \<Rightarrow> nat list \<Rightarrow> nat list \<Rightarrow> pyerr + nat list" where
  "count_row m x [] fqs = Inr fqs"
| "count_row m x (y # ys) fqs =
     (if m x y > 0
      then (case count_rating fqs (m x y) of
              Inl e \<Rightarrow> Inl e
            | Inr fqs' \<Rightarrow> count_row m x ys fqs')
      else count_row m x ys fqs)"

fun count_rows :: "ratmat \<Rightarrow> nat list \<Rightarrow> nat list \<Rightarrow> nat list \<Rightarrow> pyerr + nat list" where
  "count_rows m [] ys fqs = Inr fqs"
| "count_rows m (x # xs) ys fqs =
     (case count_row m x ys fqs of
        Inl e \<Rightarrow> Inl e
      | Inr fqs' \<Rightarrow> count_rows m xs ys fqs')"

text \<open>
  \<open>AlgoRandom.__init__(rm)\<close>.  The two loops run over \<open>range(1, lastXi)\<close> and
  \<open>range(1, lastYi)\<close>.  The fitted distribution is the list of the values \<open>1..5\<close> with
  their probabilities.
\<close>

definition AlgoRandom_init :: "cmn \<Rightarrow> ratmat \<Rightarrow> pyerr + AlgoRandom" where
  "AlgoRandom_init c rm0 =
     (let s = Algo_init None c rm0 PyNone PyNone False
      in case count_rows (rm s) [1 ..< lastXi s] [1 ..< lastYi s] [0, 0, 0, 0, 0] of
           Inl e \<Rightarrow> Inl e
         | Inr fqs \<Rightarrow>
             if sum_list fqs = 0 then Inl ZeroDivisionError
             else Inr (Algo.extend s
                        \<lparr>distrib = zip [1, 2, 3, 4, 5]
                                      (map (\<lambda>fq. real fq / real (sum_list fqs)) fqs)\<rparr>))"

text \<open>
  The empirical frequency of the value \<open>v\<close> among the nonzero entries of a training matrix
  with rows \<open>1..nx\<close> and columns \<open>1..ny\<close>, as the specification describes the fitted
  distribution.
\<close>

definition empirical_frequency :: "ratmat \<Rightarrow> nat \<Rightarrow> nat \<Rightarrow> int \<Rightarrow> real" where
  "empirical_frequency m nx ny v =
     real (length [p \<leftarrow> List.product [1 ..< nx + 1] [1 ..< ny + 1]. m (fst p) (snd p) = v])
     / real (length [p \<leftarrow> List.product [1 ..< nx + 1] [1 ..< ny + 1]. m (fst p) (snd p) > 0])"

text \<open>A rating matrix given by the list of its nonzero entries.\<close>

definition rm_of :: "((nat \<times> nat) \<times> int) list \<Rightarrow> ratmat" where
  "rm_of l x y = (case map_of l (x, y) of Some r \<Rightarrow> r | None \<Rightarrow> 0)"

section \<open>Similarity\<close>

record 'a AlgoUsingCosineSim = "'a Algo" +
  simMat :: "nat \<Rightarrow> nat \<Rightarrow> real"

definition simCos :: "('a, 'z) Algo_scheme \<Rightarrow> nat \<Rightarrow> nat \<Rightarrow> real" where
  "simCos s a b =
     (let Yab = [y \<leftarrow> [1 ..< lastYi s + 1]. rm s a y > 0 \<and> rm s b y > 0]
      in if length Yab < 2 then 0
         else let aR = map (\<lambda>y. real_of_int (rm s a y)) Yab;
                  bR = map (\<lambda>y. real_of_int (rm s b y)) Yab
              in 1 - cosine aR bR)"

text \<open>
  \<open>constructSimMat\<close>.  The similarity cache is one file per orientation; a file that
  cannot be opened is \<open>None\<close>.  On a miss the matrix is allocated with \<open>np.empty\<close>
  (its initial content \<open>uninit\<close> is arbitrary), filled for all pairs of identifiers
  \<open>1..lastXi\<close>, and saved.
\<close>

type_synonym simmat = "nat \<Rightarrow> nat \<Rightarrow> real"

record simfiles =
  simCosUsers :: "simmat option"
  simCosMovies :: "simmat option"

definition fill_simMat :: "('a, 'z) Algo_scheme \<Rightarrow> simmat \<Rightarrow> simmat" where
  "fill_simMat s uninit =
     foldl (\<lambda>m xi. foldl (\<lambda>m xj. m(xi := (m xi)(xj := simCos s xi xj)))
                          m [1 ..< lastXi s + 1])
           uninit [1 ..< lastXi s + 1]"

definition constructSimMat ::
  "simmat \<Rightarrow> simfiles \<Rightarrow> ('a, 'z) Algo_scheme \<Rightarrow> simmat \<times> simfiles" where
  "constructSimMat uninit fs s =
     (if ub s
      then (case simCosUsers fs of
              Some m \<Rightarrow> (m, fs)
            | None \<Rightarrow> (let m = fill_simMat s uninit in (m, fs\<lparr>simCosUsers := Some m\<rparr>)))
      else (case simCosMovies fs of
              Some m \<Rightarrow> (m, fs)
            | None \<Rightarrow> (let m = fill_simMat s uninit in (m, fs\<lparr>simCosMovies := Some m\<rparr>))))"

text \<open>
  \<open>AlgoUsingCosineSim.__init__(self, rm, movieBased)\<close> on a fresh object.  It calls
  \<open>Algo.__init__(self, rm, movieBased)\<close>: the flag is the second positional argument
  and so binds the parameter \<open>ur\<close>, while \<open>mr\<close> and \<open>movieBased\<close> keep their defaults
  \<open>None\<close> and \<open>False\<close>.
\<close>

definition AlgoUsingCosineSim_init ::
  "simmat \<Rightarrow> simfiles \<Rightarrow> cmn \<Rightarrow> ratmat \<Rightarrow> bool \<Rightarrow> pyarg AlgoUsingCosineSim \<times> simfiles" where
  "AlgoUsingCosineSim_init uninit fs c rm0 movieBased =
     (let s = Algo_init None c rm0 (PyBool movieBased) PyNone False
      in case constructSimMat uninit fs s of
           (m, fs') \<Rightarrow> (Algo.extend s \<lparr>simMat = m\<rparr>, fs'))"

section \<open>The plain neighbourhood predictor\<close>

record 'a AlgoBasicCollaborative = "'a AlgoUsingCosineSim" +
  k :: nat

definition AlgoBasicCollaborative_init ::
  "simmat \<Rightarrow> simfiles \<Rightarrow> cmn \<Rightarrow> ratmat \<Rightarrow> bool \<Rightarrow> pyarg AlgoBasicCollaborative \<times> simfiles" where
  "AlgoBasicCollaborative_init uninit fs c rm0 movieBased =
     (case AlgoUsingCosineSim_init uninit fs c rm0 movieBased of
        (s, fs') \<Rightarrow> (AlgoUsingCosineSim.extend s \<lparr>k = 40\<rparr>, fs'))"

definition estimate_basic :: "('a, 'z) AlgoBasicCollaborative_scheme \<Rightarrow> nat \<Rightarrow> nat \<Rightarrow> int" where
  "estimate_basic s u0 m0 =
     (case getx0y0 s u0 m0 of (x0, y0) \<Rightarrow>
      let simX0 = [(x, simMat s x0 x). x \<leftarrow> [1 ..< lastXi s + 1], rm s x y0 > 0]
      in if simX0 = [] then 0
         else let simX0 = py_sorted_rev snd simX0;
                  simNeighboors = map snd (take (k s) simX0);
                  ratNeighboors = map (\<lambda>(x, _). real_of_int (rm s x y0)) (take (k s) simX0)
              in case np_average_w ratNeighboors simNeighboors of
                   Inr a \<Rightarrow> py_round a
                 | Inl e \<Rightarrow> 0)"

section \<open>Analogical proportions\<close>



definition tvA :: "int \<Rightarrow> int \<Rightarrow> int \<Rightarrow> int \<Rightarrow> real" where
  "tvA ra0 rb0 rc0 rd0 =
     (let ra = (real_of_int ra0 - 1) / 4; rb = (real_of_int rb0 - 1) / 4;
          rc = (real_of_int rc0 - 1) / 4; rd = (real_of_int rd0 - 1) / 4
      in if (ra \<ge> rb \<and> rc \<ge> rd) \<or> (ra \<le> rb \<and> rc \<le> rd)
         then 1 - \<bar>(ra - rb) - (rc - rd)\<bar>
         else 1 - max \<bar>ra - rb\<bar> \<bar>rc - rd\<bar>)"

section \<open>The geometric analogy predictor\<close>










section \<open>Baselines and the learned-weight predictor\<close>

record AlgoWithBaseline = "adjdict Algo" +
  mu :: real
  xBiases :: "nat \<Rightarrow> real"
  yBiases :: "nat \<Rightarrow> real"

definition getBaseline :: "'z AlgoWithBaseline_scheme \<Rightarrow> nat \<Rightarrow> nat \<Rightarrow> real" where
  "getBaseline s x y = mu s + xBiases s x + yBiases s y"

text \<open>
  \<open>np.mean\<close> of a list of numbers.  Of the empty list it is \<open>nan\<close>; the model is meant
  for training matrices that hold at least one rating.
\<close>

definition np_mean :: "real list \<Rightarrow> real" where
  "np_mean l = sum_list l / real (length l)"

text \<open>
  \<open>[r for l in self.rm for r in l if r > 0]\<close>: the positive entries of the matrix, whose
  rows are \<open>0..lastXi\<close> and whose columns are \<open>0..lastYi\<close>.
\<close>

definition all_ratings :: "('a, 'z) Algo_scheme \<Rightarrow> real list" where
  "all_ratings s =
     [real_of_int (rm s x y). x \<leftarrow> [0 ..< lastXi s + 1], y \<leftarrow> [0 ..< lastYi s + 1],
                              rm s x y > 0]"

text \<open>
  The gradient strategy: one update for an observed rating \<open>r\<close> of \<open>y\<close> by \<open>x\<close>, the
  updates for all ratings of one entity, and a pass over \<open>xr.items()\<close>.
\<close>

definition sgd_rating ::
  "real \<Rightarrow> nat \<Rightarrow> (nat \<Rightarrow> real) \<times> (nat \<Rightarrow> real) \<Rightarrow> nat \<times> int
   \<Rightarrow> (nat \<Rightarrow> real) \<times> (nat \<Rightarrow> real)" where
  "sgd_rating mu0 x b p =
     (case b of (xB, yB) \<Rightarrow> case p of (y, r) \<Rightarrow>
      let lambda4 = 0.02; gamma = 0.005;
          err = real_of_int r - (mu0 + xB x + yB y);
          xB' = xB(x := xB x + gamma * (err - lambda4 * xB x));
          yB' = yB(y := yB y + gamma * (err - lambda4 * yB y))
      in (xB', yB'))"

definition sgd_pass ::
  "real \<Rightarrow> adjdict \<Rightarrow> (nat \<Rightarrow> real) \<times> (nat \<Rightarrow> real) \<Rightarrow> (nat \<Rightarrow> real) \<times> (nat \<Rightarrow> real)" where
  "sgd_pass mu0 d b =
     foldl (\<lambda>b (x, xRatings). foldl (sgd_rating mu0 x) b xRatings) b (items d)"

text \<open>
  The shrinkage strategy for one axis: for every identifier \<open>1..n\<close> the regularized
  average of the deviations from \<open>mu\<close>, with the constant \<open>lam\<close>.
\<close>

definition shrink_biases ::
  "real \<Rightarrow> real \<Rightarrow> adjdict \<Rightarrow> nat \<Rightarrow> (nat \<Rightarrow> real) \<Rightarrow> (nat \<Rightarrow> real)" where
  "shrink_biases mu0 lam d n biases =
     foldl (\<lambda>bs x. let dev = map (\<lambda>(_, r). real_of_int r - mu0) (dget d x)
                     in bs(x := sum_list dev / (lam + real (length dev))))
           biases [1 ..< n + 1]"

text \<open>
  \<open>AlgoWithBaseline.__init__(self, rm, ur, mr, movieBased, method)\<close> on a fresh object.
\<close>

definition AlgoWithBaseline_init ::
  "cmn \<Rightarrow> ratmat \<Rightarrow> adjdict \<Rightarrow> adjdict \<Rightarrow> bool \<Rightarrow> string \<Rightarrow> AlgoWithBaseline" where
  "AlgoWithBaseline_init c rm0 ur mr movieBased method =
     (let s = Algo_init None c rm0 ur mr movieBased;
          mu0 = np_mean (all_ratings s);
          zeros = (\<lambda>_. 0);
          b = (if method = ''opt''
               then foldl (\<lambda>b i. sgd_pass mu0 (xr s) b) (zeros, zeros) [0 ..< 20]
               else let lambda2 = (if ub s then 10 else 25);
                        lambda3 = (if ub s then 25 else 10)
                    in (shrink_biases mu0 lambda2 (xr s) (lastXi s) zeros,
                        shrink_biases mu0 lambda3 (yr s) (lastYi s) zeros))
      in Algo.extend s \<lparr>mu = mu0, xBiases = fst b, yBiases = snd b\<rparr>)"

text \<open>
  The regularized average of the deviations from \<open>mu\<close> of a list of (partner, rating)
  pairs, with the constant \<open>lam\<close>: the formula of the shrinkage strategy in the
  specification.
\<close>

definition shrunk_deviation :: "real \<Rightarrow> real \<Rightarrow> (nat \<times> int) list \<Rightarrow> real" where
  "shrunk_deviation mu0 lam ratings =
     sum_list (map (\<lambda>(_, r). real_of_int r - mu0) ratings) / (lam + real (length ratings))"

record AlgoKNNBelkor = AlgoWithBaseline +
  weights :: "nat \<Rightarrow> nat \<Rightarrow> real"

text \<open>
  \<open>AlgoKNNBelkor.estimate\<close>.  The sum over the raters of \<open>y0\<close> is divided by
  \<open>np.sqrt(len(yr[y0]))\<close>, a numpy division: without raters it is \<open>0/0\<close>.
\<close>

definition estimate_KNNBelkor :: "'z AlgoKNNBelkor_scheme \<Rightarrow> nat \<Rightarrow> nat \<Rightarrow> npfloat" where
  "estimate_KNNBelkor s u0 m0 =
     (case getx0y0 s u0 m0 of (x0, y0) \<Rightarrow>
      let e1 = sum_list (map (\<lambda>(x2, r). (real_of_int r - getBaseline s x2 y0) * weights s x0 x2)
                             (dget (yr s) y0));
          e2 = np_div e1 (sqrt (real (length (dget (yr s) y0))));
          e3 = np_add e2 (getBaseline s x0 y0);
          e4 = py_min (Fin 5) e3
      in py_max (Fin 1) e4)"

section \<open>The neighbourhood predictor with baseline\<close>

text \<open>
  \<open>AlgoNeighborhoodWithBaseline\<close> inherits from \<open>AlgoWithBaseline\<close> and from
  \<open>AlgoUsingCosineSim\<close>: its record has the fields of the former and the similarity
  matrix of the latter.
\<close>

record AlgoNeighborhoodWithBaseline = AlgoWithBaseline +
  simMat :: simmat

definition estimate_NeighborhoodWithBaseline ::
  "'z AlgoNeighborhoodWithBaseline_scheme \<Rightarrow> nat \<Rightarrow> nat \<Rightarrow> real" where
  "estimate_NeighborhoodWithBaseline s u0 m0 =
     (case getx0y0 s u0 m0 of (x0, y0) \<Rightarrow>
      let est0 = getBaseline s x0 y0;
          simX0 = [(x, AlgoNeighborhoodWithBaseline.simMat s x0 x, r). (x, r) \<leftarrow> dget (yr s) y0]
      in if simX0 = [] then est0
         else let simX0 = py_sorted_rev (\<lambda>t. fst (snd t)) simX0;
                  simNeighboors = map (\<lambda>(_, sim, _). sim) (take 40 simX0);
                  diffRatNeighboors =
                    map (\<lambda>(x, _, r). real_of_int r - getBaseline s x y0) (take 40 simX0)
              in case np_average_w diffRatNeighboors simNeighboors of
                   Inr a \<Rightarrow> est0 + a
                 | Inl e \<Rightarrow> est0)"

text \<open>
  \<open>AlgoNeighborhoodWithBaseline.__init__\<close> on a fresh object: the constructor of
  \<open>AlgoWithBaseline\<close>, then the one of \<open>AlgoUsingCosineSim\<close>, whose call of
  \<open>Algo.__init__\<close> finds \<open>initialized\<close> set and returns at once, so that only
  \<open>constructSimMat\<close> remains of it.
\<close>

definition AlgoNeighborhoodWithBaseline_init ::
  "simmat \<Rightarrow> simfiles \<Rightarrow> cmn \<Rightarrow> ratmat \<Rightarrow> adjdict \<Rightarrow> adjdict \<Rightarrow> bool \<Rightarrow> string
   \<Rightarrow> AlgoNeighborhoodWithBaseline \<times> simfiles" where
  "AlgoNeighborhoodWithBaseline_init uninit fs c rm0 ur mr movieBased method =
     (let s = AlgoWithBaseline_init c rm0 ur mr movieBased method
      in case constructSimMat uninit fs s of
           (m, fs') \<Rightarrow> (AlgoWithBaseline.extend s \<lparr>simMat = m\<rparr>, fs'))"

section \<open>Concrete inputs\<close>

text \<open>Small inputs on which the properties below are exercised.\<close>

text \<open>
  The end-to-end scenario of the specification: three primary and three secondary
  entities.  Entities 1 and 3 have the single partner 2 in common.
\<close>

definition scenario :: "unit Algo" where
  "scenario = Algo_init None \<lparr>lastUi = 3, lastMi = 3\<rparr>
     (rm_of [((1,1),5), ((1,2),3), ((2,1),4), ((2,2),2), ((2,3),5), ((3,2),3), ((3,3),4)])
     () () True"

text \<open>One recorded prediction: estimate \<open>1\<close>, actual rating \<open>3\<close>.\<close>

definition one_miss :: "unit Algo" where
  "one_miss = (Algo_init None \<lparr>lastUi = 1, lastMi = 1\<rparr> (\<lambda>x y. 0) () () False)
                \<lparr>preds := [(1, 3)]\<rparr>"


text \<open>
  Two users and two movies; the only rating \<open>5\<close> is the one of the last user for the
  last movie.
\<close>

definition corner :: "cmn \<times> ratmat" where
  "corner = (\<lparr>lastUi = 2, lastMi = 2\<rparr>, rm_of [((1,1),1), ((2,2),5)])"

text \<open>
  One user who rated the movie \<open>1\<close> with \<open>5\<close> and the movie \<open>2\<close> with \<open>3\<close>; the
  matrix is indexed by movie and user.
\<close>

definition one_user_rm :: ratmat where
  "one_user_rm = rm_of [((1,1),5), ((2,1),3)]"

definition one_user_ur :: adjdict where
  "one_user_ur = \<lparr>dkeys = [1], dget = (\<lambda>u. if u = 1 then [(1, 5), (2, 3)] else [])\<rparr>"

definition one_user_mr :: adjdict where
  "one_user_mr = \<lparr>dkeys = [1, 2],
                   dget = (\<lambda>m. if m = 1 then [(1, 5)] else if m = 2 then [(1, 3)] else [])\<rparr>"

definition one_user :: "bool \<Rightarrow> AlgoWithBaseline" where
  "one_user movieBased =
     AlgoWithBaseline_init \<lparr>lastUi = 1, lastMi = 2\<rparr> one_user_rm one_user_ur one_user_mr
       movieBased ''shrink''"



text \<open>An adjacency dictionary given by the list of its entries.\<close>

definition adj_of :: "(nat \<times> (nat \<times> int) list) list \<Rightarrow> adjdict" where
  "adj_of l = \<lparr>dkeys = map fst l,
              dget = (\<lambda>x. case map_of l x of Some v \<Rightarrow> v | None \<Rightarrow> [])\<rparr>"

text \<open>
  Three users and nine movies with eleven ratings, of mean \<open>3\<close>; nobody rated the movie
  \<open>9\<close>.  The matrix is indexed by movie and user.  \<open>cancel_nb\<close> is the user-based
  neighbourhood predictor with baseline built from them with the shrinkage strategy and
  without a similarity cache.
\<close>

definition cancel_rm :: ratmat where
  "cancel_rm = rm_of [((2,1),1), ((3,1),1), ((4,1),1), ((5,1),2),
                      ((1,2),1), ((2,2),5), ((3,2),5), ((6,2),5), ((7,2),5), ((8,2),5),
                      ((4,3),2)]"

definition cancel_ur :: adjdict where
  "cancel_ur = adj_of [(1, [(2,1), (3,1), (4,1), (5,2)]),
                       (2, [(1,1), (2,5), (3,5), (6,5), (7,5), (8,5)]),
                       (3, [(4,2)])]"

definition cancel_mr :: adjdict where
  "cancel_mr = adj_of [(1, [(2,1)]), (2, [(1,1), (2,5)]), (3, [(1,1), (2,5)]),
                       (4, [(1,1), (3,2)]), (5, [(1,2)]), (6, [(2,5)]), (7, [(2,5)]),
                       (8, [(2,5)]), (9, [])]"

definition cancel_bl :: AlgoWithBaseline where
  "cancel_bl = AlgoWithBaseline_init \<lparr>lastUi = 3, lastMi = 9\<rparr> cancel_rm cancel_ur cancel_mr
                 False ''shrink''"

definition cancel_nb :: AlgoNeighborhoodWithBaseline where
  "cancel_nb = fst (AlgoNeighborhoodWithBaseline_init (\<lambda>a b. 0)
                      \<lparr>simCosUsers = None, simCosMovies = None\<rparr>
                      \<lparr>lastUi = 3, lastMi = 9\<rparr> cancel_rm cancel_ur cancel_mr False ''shrink'')"

section \<open>Verified properties\<close>

lemma upt_small:
  "[Suc 0 ..< 2] = [1]" "[Suc 0 ..< 3] = [1, 2]" "[Suc 0 ..< 4] = [1, 2, 3]"
  by (simp_all add: upt_conv_Cons)

subsection \<open>Similarity of entities with little common support\<close>

lemma length_filter_upt_card:
  "length (filter P [a ..< b]) = card {y. a \<le> y \<and> y < b \<and> P y}"
proof -
  have "length (filter P [a ..< b]) = card (set (filter P [a ..< b]))"
    by (rule distinct_card [symmetric]) simp
  also have "set (filter P [a ..< b]) = {y. a \<le> y \<and> y < b \<and> P y}"
    by auto
  finally show ?thesis .
qed

text \<open>
  Claim C8.  If fewer than two partners \<open>y\<close> in \<open>1..lastYi\<close> are rated by both \<open>a\<close> and
  \<open>b\<close>, their similarity is \<open>0\<close>.
\<close>

theorem simCos_few_common:
  assumes "card {y. 1 \<le> y \<and> y \<le> lastYi s \<and> rm s a y > 0 \<and> rm s b y > 0} < 2"
  shows "simCos s a b = 0"
proof -
  have "{y. 1 \<le> y \<and> y < lastYi s + 1 \<and> rm s a y > 0 \<and> rm s b y > 0}
        = {y. 1 \<le> y \<and> y \<le> lastYi s \<and> rm s a y > 0 \<and> rm s b y > 0}"
    by auto
  with assms have
    "length [y \<leftarrow> [1 ..< lastYi s + 1]. rm s a y > 0 \<and> rm s b y > 0] < 2"
    unfolding length_filter_upt_card by simp
  then show ?thesis
    by (simp add: simCos_def Let_def)
qed

theorem simCos_few_common_witness:
  "card {y. 1 \<le> y \<and> y \<le> lastYi scenario \<and> rm scenario 1 y > 0 \<and> rm scenario 3 y > 0} < 2
   \<and> simCos scenario 1 3 = 0"
proof -
  have "{y. 1 \<le> y \<and> y \<le> lastYi scenario \<and> rm scenario 1 y > 0 \<and> rm scenario 3 y > 0} = {2}"
    by (auto simp: scenario_def Algo_init_def rm_of_def split: if_splits)
  then have h: "card {y. 1 \<le> y \<and> y \<le> lastYi scenario \<and> rm scenario 1 y > 0
                    \<and> rm scenario 3 y > 0} < 2"
    by simp
  from simCos_few_common [OF h] h show ?thesis by simp
qed

subsection \<open>Range of the truth value\<close>

text \<open>
  Claim C9.  For ratings in \<open>{1,..,5}\<close> the truth value \<open>tvA\<close> lies in \<open>[0, 1]\<close>.
\<close>

theorem tvA_unit_interval:
  assumes "ra \<in> {1..5}" "rb \<in> {1..5}" "rc \<in> {1..5}" "rd \<in> {1..5}"
  shows "0 \<le> tvA ra rb rc rd \<and> tvA ra rb rc rd \<le> 1"
proof -
  define a where "a = (real_of_int ra - 1) / 4"
  define b where "b = (real_of_int rb - 1) / 4"
  define c where "c = (real_of_int rc - 1) / 4"
  define d where "d = (real_of_int rd - 1) / 4"
  have bounds: "0 \<le> a" "a \<le> 1" "0 \<le> b" "b \<le> 1" "0 \<le> c" "c \<le> 1" "0 \<le> d" "d \<le> 1"
    using assms by (simp_all add: a_def b_def c_def d_def)
  have tv: "tvA ra rb rc rd =
      (if (a \<ge> b \<and> c \<ge> d) \<or> (a \<le> b \<and> c \<le> d)
       then 1 - \<bar>(a - b) - (c - d)\<bar> else 1 - max \<bar>a - b\<bar> \<bar>c - d\<bar>)"
    by (simp add: tvA_def Let_def a_def b_def c_def d_def)
  show ?thesis
    unfolding tv using bounds by (auto simp: max_def abs_if)
qed

theorem tvA_unit_interval_witness:
  "(1::int) \<in> {1..5} \<and> (5::int) \<in> {1..5} \<and> (4::int) \<in> {1..5} \<and> (2::int) \<in> {1..5}
   \<and> 0 \<le> tvA 1 5 4 2 \<and> tvA 1 5 4 2 \<le> 1"
  using tvA_unit_interval [of 1 5 4 2] by simp

subsection \<open>The clamp of the learned-weight predictor\<close>

lemma clamp_1_5: "\<exists>r. py_max (Fin 1) (py_min (Fin 5) e) = Fin r \<and> 1 \<le> r \<and> r \<le> 5"
  by (cases e) (simp_all add: py_min_def py_max_def)

text \<open>
  Claim C5.  Whatever the learned weights and biases are, the estimate of the
  learned-weight predictor is a number in \<open>[1, 5]\<close>; in particular it is not the
  sentinel \<open>0\<close>.  This covers an item without raters, where the neighbourhood term is
  \<open>nan\<close>.
\<close>

theorem estimate_KNNBelkor_clamped:
  "\<exists>r. estimate_KNNBelkor s u0 m0 = Fin r \<and> 1 \<le> r \<and> r \<le> 5 \<and> r \<noteq> 0"
proof -
  obtain x0 y0 where xy: "getx0y0 s u0 m0 = (x0, y0)"
    by (cases "getx0y0 s u0 m0")
  obtain e where "estimate_KNNBelkor s u0 m0 = py_max (Fin 1) (py_min (Fin 5) e)"
    by (simp add: estimate_KNNBelkor_def xy Let_def)
  moreover obtain r where "py_max (Fin 1) (py_min (Fin 5) e) = Fin r" "1 \<le> r" "r \<le> 5"
    using clamp_1_5 by blast
  ultimately show ?thesis by auto
qed

lemma estimate_KNNBelkor_no_raters:
  assumes "dget (yr s) (snd (getx0y0 s u0 m0)) = []"
  shows "estimate_KNNBelkor s u0 m0 = Fin 5"
  using assms
  by (cases "getx0y0 s u0 m0")
     (simp add: estimate_KNNBelkor_def np_div_def py_min_def py_max_def)

subsection \<open>The error statistic of the evaluation harness\<close>

lemma foldl_stats_step:
  "foldl stats_step (sq, ab, ok, ko) ps = (sq', ab', ok', ko') \<Longrightarrow>
     ab' = ab + sum_list (map (\<lambda>(e, r0). \<bar>r0 - e\<bar>) ps) \<and> ok' + ko' = ok + ko + length ps"
proof (induction ps arbitrary: sq ab ok ko)
  case Nil
  then show ?case by simp
next
  case (Cons p ps)
  obtain e r0 where p: "p = (e, r0)" by (cases p)
  show ?case
    using Cons.IH [of "sq + (r0 - e)\<^sup>2" "ab + \<bar>r0 - e\<bar>"
                      "if e = r0 then ok + 1 else ok" "if e = r0 then ko else ko + 1"]
      Cons.prems
    by (simp add: p stats_step_def split: if_splits)
qed

lemma sqrt_fixed_point:
  fixes x :: real
  assumes "0 \<le> x"
  shows "sqrt x = x \<longleftrightarrow> x = 0 \<or> x = 1"
proof
  assume "sqrt x = x"
  then have "(sqrt x)\<^sup>2 = x\<^sup>2" by simp
  with assms have "x = x * x" by (simp add: power2_eq_square)
  then have "x * (x - 1) = 0" by (simp add: algebra_simps)
  then show "x = 0 \<or> x = 1" by auto
next
  assume "x = 0 \<or> x = 1"
  then show "sqrt x = x" by auto
qed

lemma mean_abs_error_nonneg: "0 \<le> mean_abs_error ps"
  unfolding mean_abs_error_def
  by (intro divide_nonneg_nonneg sum_list_nonneg) auto

text \<open>
  Claim C2.  For a non-empty list of accumulated pairs \<open>makeStats\<close> succeeds and the
  statistic it stores in \<open>mae\<close> is the square root of the mean of the absolute errors.
  This is not the mean absolute error: the two agree only where that mean is \<open>0\<close> or
  \<open>1\<close>.
\<close>

theorem makeStats_mae_sqrt:
  assumes "preds s \<noteq> []"
  shows "\<exists>s'. makeStats s = Inr s'
           \<and> mae s' = sqrt (sum_list (map (\<lambda>(e, r0). \<bar>r0 - e\<bar>) (preds s))
                            / real (length (preds s)))
           \<and> (mae s' = mean_abs_error (preds s)
                \<longleftrightarrow> mean_abs_error (preds s) = 0 \<or> mean_abs_error (preds s) = 1)"
proof -
  obtain sq ab ok ko where f: "foldl stats_step (0, 0, 0, 0) (preds s) = (sq, ab, ok, ko)"
    by (cases "foldl stats_step (0, 0, 0, 0) (preds s)") auto
  from foldl_stats_step [OF f]
  have ab: "ab = sum_list (map (\<lambda>(e, r0). \<bar>r0 - e\<bar>) (preds s))"
    and n: "ok + ko = length (preds s)"
    by simp_all
  from n assms have pos: "ok + ko \<noteq> 0" by simp
  have m: "makeStats s = Inr (s\<lparr>rmse := sqrt (sq / real (ok + ko)),
                                 mae := sqrt (ab / real (ok + ko)),
                                 accRate := real ok / real (ok + ko)\<rparr>)"
    using pos by (simp add: makeStats_def f)
  have "sqrt (mean_abs_error (preds s)) = mean_abs_error (preds s)
        \<longleftrightarrow> mean_abs_error (preds s) = 0 \<or> mean_abs_error (preds s) = 1"
    by (rule sqrt_fixed_point [OF mean_abs_error_nonneg])
  then show ?thesis
    unfolding m using ab n by (simp add: mean_abs_error_def)
qed

theorem makeStats_mae_sqrt_witness:
  "preds one_miss \<noteq> []
   \<and> (\<exists>s'. makeStats one_miss = Inr s' \<and> mae s' = sqrt 2 \<and> mae s' \<noteq> mean_abs_error (preds one_miss))"
proof -
  have h: "preds one_miss \<noteq> []" by (simp add: one_miss_def)
  have m: "mean_abs_error (preds one_miss) = 2"
    by (simp add: one_miss_def mean_abs_error_def)
  from makeStats_mae_sqrt [OF h] obtain s' where
    "makeStats one_miss = Inr s'"
    "mae s' = sqrt (sum_list (map (\<lambda>(e, r0). \<bar>r0 - e\<bar>) (preds one_miss)) / real (length (preds one_miss)))"
    "mae s' = mean_abs_error (preds one_miss)
       \<longleftrightarrow> mean_abs_error (preds one_miss) = 0 \<or> mean_abs_error (preds one_miss) = 1"
    by blast
  then have "makeStats one_miss = Inr s' \<and> mae s' = sqrt 2 \<and> mae s' \<noteq> mean_abs_error (preds one_miss)"
    using m by (simp add: one_miss_def)
  with h show ?thesis by blast
qed

subsection \<open>The orientation flag of the plain neighbourhood predictor\<close>

lemma simCos_cong:
  assumes "rm s = rm t" "lastYi s = lastYi t"
  shows "simCos s a b = simCos t a b"
  unfolding simCos_def assms by (rule refl)

lemma fill_simMat_cong:
  assumes "rm s = rm t" "lastXi s = lastXi t" "lastYi s = lastYi t"
  shows "fill_simMat s uninit = fill_simMat t uninit"
proof -
  have e: "simCos s = simCos t"
    using assms by (intro ext) (rule simCos_cong)
  show ?thesis unfolding fill_simMat_def assms e by (rule refl)
qed

lemma constructSimMat_cong:
  assumes "ub s = ub t" "rm s = rm t" "lastXi s = lastXi t" "lastYi s = lastYi t"
  shows "constructSimMat uninit fs s = constructSimMat uninit fs t"
  unfolding constructSimMat_def assms(1) fill_simMat_cong [OF assms(2-4), of uninit]
  by (rule refl)

lemma Algo_init_fresh_fields:
  "ub (Algo_init None c rm0 ur mr False)"
  "xr (Algo_init None c rm0 ur mr False) = ur"
  "(Algo_init None c rm0 ur mr False)\<lparr>xr := v\<rparr> = Algo_init None c rm0 v mr False"
  by (simp_all add: Algo_init_def)

lemma constructSimMat_flag:
  "constructSimMat uninit fs (Algo_init None c rm0 (PyBool b) PyNone False)
   = constructSimMat uninit fs (Algo_init None c rm0 (PyBool False) PyNone False)"
  by (rule constructSimMat_cong) (simp_all add: Algo_init_def)

lemma AlgoBasicCollaborative_init_fst:
  "fst (AlgoBasicCollaborative_init uninit fs c rm0 b) =
     AlgoUsingCosineSim.extend
       (Algo.extend (Algo_init None c rm0 (PyBool b) PyNone False)
          \<lparr>AlgoUsingCosineSim.simMat = fst (constructSimMat uninit fs
                           (Algo_init None c rm0 (PyBool False) PyNone False))\<rparr>)
       \<lparr>k = 40\<rparr>"
  unfolding AlgoBasicCollaborative_init_def AlgoUsingCosineSim_init_def Let_def
    constructSimMat_flag [of uninit fs c rm0 b]
  by (simp add: split_beta)

lemma estimate_basic_cong:
  assumes "ub s = ub t" "rm s = rm t" "lastXi s = lastXi t" "AlgoUsingCosineSim.simMat s = AlgoUsingCosineSim.simMat t" "k s = k t"
  shows "estimate_basic s u0 m0 = estimate_basic t u0 m0"
  unfolding estimate_basic_def getx0y0_def assms by (rule refl)

lemma estimate_basic_extend_xr:
  "estimate_basic
     (AlgoUsingCosineSim.extend (Algo.extend (Algo_init None c rm0 v mr False) \<lparr>AlgoUsingCosineSim.simMat = m\<rparr>)
        \<lparr>k = n\<rparr>) u0 m0
   = estimate_basic
     (AlgoUsingCosineSim.extend (Algo.extend (Algo_init None c rm0 w mr False) \<lparr>AlgoUsingCosineSim.simMat = m\<rparr>)
        \<lparr>k = n\<rparr>) u0 m0"
  by (rule estimate_basic_cong)
     (simp_all add: Algo_init_def Algo.extend_def AlgoUsingCosineSim.extend_def)

text \<open>
  Claim C3.  Whatever the flag \<open>movieBased\<close> is, the plain neighbourhood predictor is
  user-oriented: the flag ends up in the field that holds \<open>ur\<close>, and the predictors
  built with \<open>True\<close> and with \<open>False\<close> (from the same matrix and the same cache)
  compute the same estimate for every query.
\<close>

theorem basic_movieBased_ignored:
  "ub (fst (AlgoBasicCollaborative_init uninit fs c rm0 movieBased))
   \<and> xr (fst (AlgoBasicCollaborative_init uninit fs c rm0 movieBased)) = PyBool movieBased
   \<and> estimate_basic (fst (AlgoBasicCollaborative_init uninit fs c rm0 True)) u0 m0
     = estimate_basic (fst (AlgoBasicCollaborative_init uninit fs c rm0 False)) u0 m0"
proof -
  have "ub (fst (AlgoBasicCollaborative_init uninit fs c rm0 movieBased))"
    "xr (fst (AlgoBasicCollaborative_init uninit fs c rm0 movieBased)) = PyBool movieBased"
    unfolding AlgoBasicCollaborative_init_fst
    by (simp_all add: Algo_init_def Algo.extend_def AlgoUsingCosineSim.extend_def)
  moreover have
    "estimate_basic (fst (AlgoBasicCollaborative_init uninit fs c rm0 True)) u0 m0
     = estimate_basic (fst (AlgoBasicCollaborative_init uninit fs c rm0 False)) u0 m0"
    unfolding AlgoBasicCollaborative_init_fst by (rule estimate_basic_extend_xr)
  ultimately show ?thesis by simp
qed

subsection \<open>The plain neighbourhood estimate\<close>


lemma map2_mult_maps: "map2 (*) (map f xs) (map g xs) = map (\<lambda>x. f x * g x) xs"
  by (induction xs) simp_all

lemma set_py_sorted_rev: "set (py_sorted_rev f xs) = set xs"
  by (simp add: py_sorted_rev_def)

lemma py_sorted_rev_Nil: "py_sorted_rev f xs = [] \<longleftrightarrow> xs = []"
  by (metis set_py_sorted_rev set_empty)



lemma py_sorted_rev_descending: "sorted (rev (map f (py_sorted_rev f xs)))"
  by (simp add: py_sorted_rev_def rev_map)

lemma py_sorted_rev_stable:
  "[y \<leftarrow> py_sorted_rev f xs. f y = c] = [y \<leftarrow> xs. f y = c]"
proof -
  have "[y \<leftarrow> py_sorted_rev f xs. f y = c] = rev [y \<leftarrow> sort_key f (rev xs). f y = c]"
    by (simp add: py_sorted_rev_def rev_filter)
  also have "[y \<leftarrow> sort_key f (rev xs). f y = c] = [y \<leftarrow> rev xs. f y = c]"
    by (rule sort_key_stable)
  also have "rev [y \<leftarrow> rev xs. f y = c] = [y \<leftarrow> xs. f y = c]"
    by (simp add: rev_filter)
  finally show ?thesis .
qed

lemma length_py_sorted_rev: "length (py_sorted_rev f xs) = length xs"
  by (simp add: py_sorted_rev_def)

lemma foldl_row_update:
  "foldl (\<lambda>m xj. m(xi := (m xi)(xj := g xj))) m ys a b
   = (if a = xi \<and> b \<in> set ys then g b else m a b)"
  by (induction ys arbitrary: m) auto

lemma foldl_matrix_update:
  "foldl (\<lambda>m xi. foldl (\<lambda>m xj. m(xi := (m xi)(xj := g xi xj))) m ys) m xs a b
   = (if a \<in> set xs \<and> b \<in> set ys then g a b else m a b)"
proof (induction xs arbitrary: m)
  case Nil
  then show ?case by simp
next
  case (Cons x xs)
  let ?F = "\<lambda>m xi. foldl (\<lambda>m xj. m(xi := (m xi)(xj := g xi xj))) m ys"
  have "foldl ?F m (x # xs) a b = foldl ?F (?F m x) xs a b" by simp
  also have "\<dots> = (if a \<in> set xs \<and> b \<in> set ys then g a b else ?F m x a b)"
    by (rule Cons.IH)
  also have "?F m x a b = (if a = x \<and> b \<in> set ys then g x b else m a b)"
    by (rule foldl_row_update)
  finally show ?case by auto
qed

lemma fill_simMat_entry:
  "fill_simMat s uninit a b =
     (if 1 \<le> a \<and> a \<le> lastXi s \<and> 1 \<le> b \<and> b \<le> lastXi s then simCos s a b else uninit a b)"
  unfolding fill_simMat_def foldl_matrix_update by auto

lemma sum_squares_nonneg: "0 \<le> sum_list (map (\<lambda>a::real. a * a) u)"
  by (rule sum_list_nonneg) auto

lemma simCos_nonneg: "0 \<le> simCos s a b"
proof -
  define Yab where "Yab = [y \<leftarrow> [1 ..< lastYi s + 1]. rm s a y > 0 \<and> rm s b y > 0]"
  have "0 \<le> sum_list (map2 (*) (map (\<lambda>y. real_of_int (rm s a y)) Yab)
                                 (map (\<lambda>y. real_of_int (rm s b y)) Yab))"
    unfolding map2_mult_maps by (rule sum_list_nonneg) (auto simp: Yab_def)
  then have "0 \<le> 1 - cosine (map (\<lambda>y. real_of_int (rm s a y)) Yab)
                             (map (\<lambda>y. real_of_int (rm s b y)) Yab)"
    unfolding cosine_def
    by (simp only: diff_diff_eq2 add_diff_cancel_left' diff_add_cancel)
       (intro divide_nonneg_nonneg mult_nonneg_nonneg real_sqrt_ge_zero sum_squares_nonneg)
  then show ?thesis
    unfolding simCos_def Let_def Yab_def [symmetric] by simp
qed

lemma AlgoBasicCollaborative_init_invariant:
  assumes "simCosUsers fs = None"
  shows "k (fst (AlgoBasicCollaborative_init uninit fs c rm0 mb)) = 40"
    and "1 \<le> a \<Longrightarrow> a \<le> lastUi c \<Longrightarrow> 1 \<le> b \<Longrightarrow> b \<le> lastUi c \<Longrightarrow>
         0 \<le> AlgoUsingCosineSim.simMat (fst (AlgoBasicCollaborative_init uninit fs c rm0 mb)) a b"
proof -
  let ?s = "Algo_init None c rm0 (PyBool False) PyNone False"
  have f: "fst (constructSimMat uninit fs ?s) = fill_simMat ?s uninit"
    using assms by (simp add: constructSimMat_def Algo_init_def Let_def)
  show "k (fst (AlgoBasicCollaborative_init uninit fs c rm0 mb)) = 40"
    unfolding AlgoBasicCollaborative_init_fst
    by (simp add: AlgoUsingCosineSim.extend_def)
  assume "1 \<le> a" "a \<le> lastUi c" "1 \<le> b" "b \<le> lastUi c"
  moreover have "lastXi ?s = lastUi c" by (simp add: Algo_init_def)
  ultimately have "fill_simMat ?s uninit a b = simCos ?s a b"
    by (simp add: fill_simMat_entry)
  then show "0 \<le> AlgoUsingCosineSim.simMat (fst (AlgoBasicCollaborative_init uninit fs c rm0 mb)) a b"
    unfolding AlgoBasicCollaborative_init_fst f
    by (simp add: AlgoUsingCosineSim.extend_def Algo.extend_def simCos_nonneg)
qed




subsection \<open>The distribution fitted by the random predictor\<close>

text \<open>
  Claim C7 does not hold on the code.  The counting loops stop before the last row and the
  last column of the matrix: on the input \<open>corner\<close> the fitted distribution gives
  probability \<open>1\<close> to the value \<open>1\<close> and \<open>0\<close> to the value \<open>5\<close>, although half
  of the nonzero entries of the training matrix are \<open>5\<close>.
\<close>

theorem AlgoRandom_misses_last_row:
  "(case AlgoRandom_init (fst corner) (snd corner) of
      Inl e \<Rightarrow> False
    | Inr s \<Rightarrow> distrib s = [(1, 1), (2, 0), (3, 0), (4, 0), (5, 0)]
       \<and> empirical_frequency (rm s) (lastXi s) (lastYi s) 5 = 1/2)"
  by (simp add: corner_def AlgoRandom_init_def Algo_init_def Let_def rm_of_def
      count_rating_def empirical_frequency_def upt_small Algo.extend_def)

subsection \<open>The constants of the shrinkage strategy\<close>

text \<open>
  Claim C1 as stated, with the smaller constant \<open>10\<close> on the primary axis in every
  orientation, fails for the movie-based predictor: the bias of the movie \<open>1\<close> is
  \<open>1/26\<close>, not \<open>1/11\<close>.
\<close>

theorem shrinkage_primary_counterexample:
  "xBiases (one_user True) 1
     \<noteq> shrunk_deviation (mu (one_user True)) 10 (dget (xr (one_user True)) 1)"
  by code_simp

lemma foldl_fun_upd:
  "foldl (\<lambda>bs x. bs(x := h x)) b xs z = (if z \<in> set xs then h z else b z)"
  by (induction xs arbitrary: b) auto

lemma shrink_biases_entry:
  "shrink_biases mu0 lam d n b x =
     (if 1 \<le> x \<and> x \<le> n then shrunk_deviation mu0 lam (dget d x) else b x)"
  unfolding shrink_biases_def Let_def foldl_fun_upd shrunk_deviation_def by auto

text \<open>
  Claim C1, amended.  In the shrinkage strategy the regularization constant follows the
  kind of entity, not the axis: users are shrunk with \<open>10\<close> and movies with \<open>25\<close>.
  In the user-based orientation the primary axis therefore uses \<open>10\<close> and the secondary
  axis \<open>25\<close>; in the movie-based orientation the primary axis uses \<open>25\<close> and the
  secondary axis \<open>10\<close>.  On either axis the bias of an entity in range is the sum of
  its ratings' deviations from \<open>mu\<close> divided by the constant plus their number.
\<close>

theorem shrinkage_constants:
  assumes "method \<noteq> ''opt''"
    and "all_ratings (Algo_init None c rm0 ur mr movieBased) \<noteq> []"
  shows "let s = AlgoWithBaseline_init c rm0 ur mr movieBased method
         in (1 \<le> x \<and> x \<le> lastXi s \<longrightarrow>
               xBiases s x = shrunk_deviation (mu s) (if movieBased then 25 else 10) (dget (xr s) x))
          \<and> (1 \<le> y \<and> y \<le> lastYi s \<longrightarrow>
               yBiases s y = shrunk_deviation (mu s) (if movieBased then 10 else 25) (dget (yr s) y))"
  using assms(1)
  by (simp add: AlgoWithBaseline_init_def Let_def Algo.extend_def shrink_biases_entry
      Algo_init_def)

lemma upt_from_0: "[0 ..< 2] = [0, Suc 0]" "[0 ..< 3] = [0, Suc 0, 2]"
  by (simp_all add: upt_conv_Cons)

theorem shrinkage_constants_witness:
  "''shrink'' \<noteq> ''opt''
   \<and> all_ratings (Algo_init None \<lparr>lastUi = 1, lastMi = 2\<rparr> one_user_rm one_user_ur one_user_mr True)
       \<noteq> []
   \<and> xBiases (one_user True) 1
       = shrunk_deviation (mu (one_user True)) 25 (dget (xr (one_user True)) 1)
   \<and> yBiases (one_user True) 1
       = shrunk_deviation (mu (one_user True)) 10 (dget (yr (one_user True)) 1)
   \<and> xBiases (one_user True) 1 = 1 / 26"
proof -
  have h1: "''shrink'' \<noteq> ''opt''" by simp
  have h2: "all_ratings (Algo_init None \<lparr>lastUi = 1, lastMi = 2\<rparr> one_user_rm one_user_ur
              one_user_mr True) \<noteq> []"
    by (simp add: all_ratings_def Algo_init_def one_user_rm_def rm_of_def upt_from_0)
  have l: "lastXi (one_user True) = 2" "lastYi (one_user True) = 1"
    by (simp_all add: one_user_def AlgoWithBaseline_init_def Let_def Algo_init_def
        Algo.extend_def)
  from shrinkage_constants [OF h1 h2, of 1 1]
  have b: "xBiases (one_user True) 1
             = shrunk_deviation (mu (one_user True)) 25 (dget (xr (one_user True)) 1)"
    "yBiases (one_user True) 1
             = shrunk_deviation (mu (one_user True)) 10 (dget (yr (one_user True)) 1)"
    unfolding Let_def one_user_def [symmetric] by (simp_all add: l)
  have v: "shrunk_deviation (mu (one_user True)) 25 (dget (xr (one_user True)) 1) = 1 / 26"
    by code_simp
  from h1 h2 b v show ?thesis by simp
qed

subsection \<open>The neighbourhood estimate with baseline\<close>

lemma insort_key_map:
  "insort_key f (g x) (map g ys) = map g (insort_key (\<lambda>y. f (g y)) x ys)"
  by (induction ys) simp_all

lemma sort_key_map: "sort_key f (map g xs) = map g (sort_key (\<lambda>y. f (g y)) xs)"
  by (induction xs) (simp_all add: insort_key_map)

lemma py_sorted_rev_map:
  "py_sorted_rev f (map g xs) = map g (py_sorted_rev (\<lambda>y. f (g y)) xs)"
  by (simp add: py_sorted_rev_def rev_map sort_key_map)

text \<open>
  Claim C6, amended.  Let the neighbours of \<open>y0\<close> be put in descending order of their
  similarity to \<open>x0\<close>, neighbours of equal similarity keeping their order, and let the
  first 40 be selected.  Without neighbours, and when the similarities of the selected ones
  sum to zero, the estimate is the baseline \<open>mu + xBiases[x0] + yBiases[y0]\<close> alone;
  otherwise it is this baseline plus the similarity-weighted average of the selected
  neighbours' deviations from their own baselines.  No branch assigns the sentinel, but
  nothing keeps this value away from \<open>0\<close>.
\<close>

theorem estimate_NeighborhoodWithBaseline_values:
  assumes xy: "getx0y0 s u0 m0 = (x0, y0)"
  shows "\<exists>srt.
           (\<forall>c. [p \<leftarrow> srt. AlgoNeighborhoodWithBaseline.simMat s x0 (fst p) = c]
                = [p \<leftarrow> dget (yr s) y0. AlgoNeighborhoodWithBaseline.simMat s x0 (fst p) = c])
         \<and> sorted (rev (map (\<lambda>p. AlgoNeighborhoodWithBaseline.simMat s x0 (fst p)) srt))
         \<and> (let top = take 40 srt;
                 W = (\<Sum>(x, r) \<leftarrow> top. AlgoNeighborhoodWithBaseline.simMat s x0 x);
                 D = (\<Sum>(x, r) \<leftarrow> top. (real_of_int r - (mu s + xBiases s x + yBiases s y0))
                                        * AlgoNeighborhoodWithBaseline.simMat s x0 x) / W
             in (dget (yr s) y0 = [] \<or> W = 0 \<longrightarrow>
                   estimate_NeighborhoodWithBaseline s u0 m0
                     = mu s + xBiases s x0 + yBiases s y0)
              \<and> (dget (yr s) y0 \<noteq> [] \<and> W \<noteq> 0 \<longrightarrow>
                   estimate_NeighborhoodWithBaseline s u0 m0
                     = mu s + xBiases s x0 + yBiases s y0 + D))"
proof -
  define sim where "sim = AlgoNeighborhoodWithBaseline.simMat s x0"
  define h where "h = (\<lambda>(x, r). (x, sim x, r :: int))"
  define srt where "srt = py_sorted_rev (\<lambda>p. sim (fst p)) (dget (yr s) y0)"
  define top where "top = take 40 srt"
  define W where "W = (\<Sum>(x, r) \<leftarrow> top. sim x)"
  define D where
    "D = (\<Sum>(x, r) \<leftarrow> top. (real_of_int r - (mu s + xBiases s x + yBiases s y0)) * sim x) / W"
  have simX0: "[(x, AlgoNeighborhoodWithBaseline.simMat s x0 x, r). (x, r) \<leftarrow> dget (yr s) y0]
               = map h (dget (yr s) y0)"
    unfolding h_def sim_def by (rule refl)
  have key: "(\<lambda>y. fst (snd (h y))) = (\<lambda>p. sim (fst p))"
    by (simp add: h_def split_def)
  have t3: "take 40 (py_sorted_rev (\<lambda>t. fst (snd t)) (map h (dget (yr s) y0))) = map h top"
    unfolding py_sorted_rev_map key top_def srt_def by (simp add: take_map)
  have w: "map (\<lambda>(_, sim, _). sim) (map h top) = map (\<lambda>(x, r). sim x) top"
    by (simp add: h_def split_def)
  have d: "map2 (*) (map (\<lambda>(x, _, r). real_of_int r - getBaseline s x y0) (map h top))
                     (map (\<lambda>(_, sim, _). sim) (map h top))
           = map (\<lambda>(x, r). (real_of_int r - (mu s + xBiases s x + yBiases s y0)) * sim x) top"
    using map2_mult_maps [of "\<lambda>p. real_of_int (snd p) - getBaseline s (fst p) y0" top
        "\<lambda>p. sim (fst p)"]
    by (simp add: h_def split_def getBaseline_def comp_def)
  have e0: "estimate_NeighborhoodWithBaseline s u0 m0 =
      (if map h (dget (yr s) y0) = [] then getBaseline s x0 y0
       else case np_average_w
                   (map (\<lambda>(x, _, r). real_of_int r - getBaseline s x y0) (map h top))
                   (map (\<lambda>(_, sim, _). sim) (map h top)) of
              Inr a \<Rightarrow> getBaseline s x0 y0 + a
            | Inl e \<Rightarrow> getBaseline s x0 y0)"
    unfolding estimate_NeighborhoodWithBaseline_def xy prod.case simX0 Let_def t3
    by (rule refl)
  have e: "estimate_NeighborhoodWithBaseline s u0 m0 =
      (if dget (yr s) y0 = [] \<or> W = 0 then mu s + xBiases s x0 + yBiases s y0
       else mu s + xBiases s x0 + yBiases s y0 + D)"
    unfolding e0 np_average_w_def d
    unfolding w W_def [symmetric] D_def [symmetric]
    by (simp add: getBaseline_def)
  have st: "[p \<leftarrow> srt. sim (fst p) = c] = [p \<leftarrow> dget (yr s) y0. sim (fst p) = c]" for c
    unfolding srt_def by (rule py_sorted_rev_stable)
  have so: "sorted (rev (map (\<lambda>p. sim (fst p)) srt))"
    unfolding srt_def by (rule py_sorted_rev_descending)
  have c3: "(let top = take 40 srt;
                 W = (\<Sum>(x, r) \<leftarrow> top. sim x);
                 D = (\<Sum>(x, r) \<leftarrow> top. (real_of_int r - (mu s + xBiases s x + yBiases s y0))
                                        * sim x) / W
             in (dget (yr s) y0 = [] \<or> W = 0 \<longrightarrow>
                   estimate_NeighborhoodWithBaseline s u0 m0
                     = mu s + xBiases s x0 + yBiases s y0)
              \<and> (dget (yr s) y0 \<noteq> [] \<and> W \<noteq> 0 \<longrightarrow>
                   estimate_NeighborhoodWithBaseline s u0 m0
                     = mu s + xBiases s x0 + yBiases s y0 + D))"
    unfolding Let_def top_def [symmetric] W_def [symmetric] D_def [symmetric]
    unfolding e by simp
  show ?thesis
    unfolding sim_def [symmetric]
    by (rule exI [of _ srt], intro conjI allI) (rule st, rule so, rule c3)
qed

lemma cancel_bl_facts:
  "ub cancel_bl" "lastXi cancel_bl = 3" "lastYi cancel_bl = 9"
  "dget (yr cancel_bl) (Suc 0) = [(2, 1)]" "dget (yr cancel_bl) 9 = []"
  "mu cancel_bl + xBiases cancel_bl (Suc 0) + yBiases cancel_bl (Suc 0) = 63 / 26"
  "mu cancel_bl + xBiases cancel_bl 2 + yBiases cancel_bl (Suc 0) = 89 / 26"
  "mu cancel_bl + xBiases cancel_bl 3 + yBiases cancel_bl (Suc 0) = 405 / 143"
  "mu cancel_bl + xBiases cancel_bl (Suc 0) + yBiases cancel_bl 9 = 5 / 2"
  "rm cancel_bl (Suc 0) 2 = 1" "rm cancel_bl (Suc 0) 3 = 1" "rm cancel_bl 2 2 = 5" "rm cancel_bl 2 3 = 5"
  by code_simp+

lemma cancel_bl_common:
  "[y \<leftarrow> [1 ..< lastYi cancel_bl + 1]. rm cancel_bl (Suc 0) y > 0 \<and> rm cancel_bl 2 y > 0] = [2, 3]"
  "[y \<leftarrow> [1 ..< lastYi cancel_bl + 1]. rm cancel_bl 3 y > 0 \<and> rm cancel_bl 2 y > 0] = []"
  by code_simp+

lemma cancel_nb_eq:
  "cancel_nb = AlgoWithBaseline.extend cancel_bl
                 \<lparr>AlgoNeighborhoodWithBaseline.simMat = fill_simMat cancel_bl (\<lambda>a b. 0)\<rparr>"
  unfolding cancel_nb_def AlgoNeighborhoodWithBaseline_init_def Let_def cancel_bl_def [symmetric]
  by (simp add: constructSimMat_def cancel_bl_facts Let_def)

lemma cancel_nb_fields:
  "ub cancel_nb" "yr cancel_nb = yr cancel_bl" "mu cancel_nb = mu cancel_bl"
  "xBiases cancel_nb = xBiases cancel_bl" "yBiases cancel_nb = yBiases cancel_bl"
  "AlgoNeighborhoodWithBaseline.simMat cancel_nb = fill_simMat cancel_bl (\<lambda>a b. 0)"
  unfolding cancel_nb_eq by (simp_all add: AlgoWithBaseline.extend_def cancel_bl_facts)

lemma cancel_sims:
  "AlgoNeighborhoodWithBaseline.simMat cancel_nb (Suc 0) 2 = 1"
  "AlgoNeighborhoodWithBaseline.simMat cancel_nb 3 2 = 0"
proof -
  have "sqrt 2 * sqrt 50 = sqrt 100"
    by (simp add: real_sqrt_mult [symmetric])
  also have "sqrt 100 = 10"
    by (rule real_sqrt_unique) simp_all
  finally have q: "sqrt 2 * sqrt 50 = 10" .
  have "simCos cancel_bl (Suc 0) 2 = 1"
    unfolding simCos_def Let_def cancel_bl_common
    by (simp add: cosine_def q cancel_bl_facts)
  then show "AlgoNeighborhoodWithBaseline.simMat cancel_nb (Suc 0) 2 = 1"
    by (simp add: cancel_nb_fields fill_simMat_entry cancel_bl_facts)
  have "simCos cancel_bl 3 2 = 0"
    unfolding simCos_def Let_def cancel_bl_common by simp
  then show "AlgoNeighborhoodWithBaseline.simMat cancel_nb 3 2 = 0"
    by (simp add: cancel_nb_fields fill_simMat_entry cancel_bl_facts)
qed

lemma estimate_NeighborhoodWithBaseline_one:
  assumes "getx0y0 s u0 m0 = (x0, y0)" "dget (yr s) y0 = [(x, r)]"
    "AlgoNeighborhoodWithBaseline.simMat s x0 x = w"
  shows "estimate_NeighborhoodWithBaseline s u0 m0 =
           (if w = 0 then getBaseline s x0 y0
            else getBaseline s x0 y0 + (real_of_int r - getBaseline s x y0) * w / w)"
  unfolding estimate_NeighborhoodWithBaseline_def assms prod.case Let_def
  by (simp add: py_sorted_rev_def np_average_w_def assms)

text \<open>
  Claim C6 as stated, with an estimate that is never the sentinel, fails on the predictor
  \<open>cancel_nb\<close>: for the user \<open>1\<close> and the movie \<open>1\<close> the baseline \<open>63/26\<close>
  and the deviation \<open>1 - 89/26\<close> of the only neighbour cancel, the estimate is \<open>0\<close>
  and \<open>updatePreds\<close> counts it as an impossible prediction.
\<close>

theorem estimate_NeighborhoodWithBaseline_sentinel:
  "estimate_NeighborhoodWithBaseline cancel_nb 1 1 = 0
   \<and> nImp (updatePreds (cancel_nb\<lparr>est := estimate_NeighborhoodWithBaseline cancel_nb 1 1\<rparr>) 4)
       = nImp cancel_nb + 1"
proof -
  have xy: "getx0y0 cancel_nb 1 1 = (Suc 0, Suc 0)"
    by (simp add: getx0y0_def cancel_nb_fields)
  have y: "dget (yr cancel_nb) (Suc 0) = [(2, 1)]"
    by (simp add: cancel_nb_fields cancel_bl_facts)
  have e: "estimate_NeighborhoodWithBaseline cancel_nb 1 1 = 0"
    unfolding estimate_NeighborhoodWithBaseline_one [OF xy y cancel_sims(1)]
    by (simp add: getBaseline_def cancel_nb_fields cancel_bl_facts)
  then show ?thesis
    by (simp add: updatePreds_def)
qed

lemma stable_short:
  assumes st: "\<And>c. [p \<leftarrow> srt. f p = c] = [p \<leftarrow> xs. f p = c]" and one: "length xs \<le> 1"
  shows "srt = xs"
proof (cases xs)
  case Nil
  have "p \<notin> set srt" for p
  proof
    assume "p \<in> set srt"
    then have "p \<in> set [q \<leftarrow> srt. f q = f p]" by simp
    then show False unfolding st Nil by simp
  qed
  then show ?thesis using Nil by (cases srt) auto
next
  case (Cons a as)
  with one have xs: "xs = [a]" by simp
  have k: "f p = f a" if "p \<in> set srt" for p
  proof -
    from that have "p \<in> set [q \<leftarrow> srt. f q = f p]" by simp
    then have "p \<in> set [q \<leftarrow> [a]. f q = f p]" unfolding st xs .
    then show ?thesis by (auto split: if_splits)
  qed
  then have "[p \<leftarrow> srt. f p = f a] = srt" by (simp add: filter_id_conv)
  then show ?thesis using st [of "f a"] xs by simp
qed

theorem estimate_NeighborhoodWithBaseline_values_witness:
  "getx0y0 cancel_nb 1 1 = (1, 1) \<and> getx0y0 cancel_nb 3 1 = (3, 1) \<and> getx0y0 cancel_nb 1 9 = (1, 9)
   \<and> estimate_NeighborhoodWithBaseline cancel_nb 1 1 = 63 / 26 + (1 - 89 / 26) * 1 / 1
   \<and> estimate_NeighborhoodWithBaseline cancel_nb 3 1 = 405 / 143
   \<and> estimate_NeighborhoodWithBaseline cancel_nb 1 9 = 5 / 2"
proof -
  have xy1: "getx0y0 cancel_nb 1 1 = (Suc 0, Suc 0)" and xy3: "getx0y0 cancel_nb 3 1 = (3, Suc 0)"
    and xy9: "getx0y0 cancel_nb 1 9 = (Suc 0, 9)"
    by (simp_all add: getx0y0_def cancel_nb_fields)
  have y: "dget (yr cancel_nb) (Suc 0) = [(2, 1)]" "dget (yr cancel_nb) 9 = []"
    by (simp_all add: cancel_nb_fields cancel_bl_facts)
  note f = cancel_nb_fields(3-5) cancel_bl_facts(6-9)
  have e1: "estimate_NeighborhoodWithBaseline cancel_nb 1 1 = 63 / 26 + (1 - 89 / 26) * 1 / 1"
  proof -
    from estimate_NeighborhoodWithBaseline_values [OF xy1] obtain srt where
      st: "\<And>c. [p \<leftarrow> srt. AlgoNeighborhoodWithBaseline.simMat cancel_nb (Suc 0) (fst p) = c]
              = [p \<leftarrow> dget (yr cancel_nb) (Suc 0).
                   AlgoNeighborhoodWithBaseline.simMat cancel_nb (Suc 0) (fst p) = c]"
      and v: "let top = take 40 srt;
                 W = (\<Sum>(x, r) \<leftarrow> top. AlgoNeighborhoodWithBaseline.simMat cancel_nb (Suc 0) x);
                 D = (\<Sum>(x, r) \<leftarrow> top. (real_of_int r - (mu cancel_nb + xBiases cancel_nb x
                                                        + yBiases cancel_nb (Suc 0)))
                        * AlgoNeighborhoodWithBaseline.simMat cancel_nb (Suc 0) x) / W
             in (dget (yr cancel_nb) (Suc 0) = [] \<or> W = 0 \<longrightarrow>
                   estimate_NeighborhoodWithBaseline cancel_nb 1 1
                     = mu cancel_nb + xBiases cancel_nb (Suc 0) + yBiases cancel_nb (Suc 0))
              \<and> (dget (yr cancel_nb) (Suc 0) \<noteq> [] \<and> W \<noteq> 0 \<longrightarrow>
                   estimate_NeighborhoodWithBaseline cancel_nb 1 1
                     = mu cancel_nb + xBiases cancel_nb (Suc 0) + yBiases cancel_nb (Suc 0) + D)"
      by blast
    have "srt = [(2, 1)]"
      using stable_short [where srt = srt and xs = "dget (yr cancel_nb) (Suc 0)", OF st] y by simp
    with v show ?thesis
      by (simp add: Let_def y cancel_sims f)
  qed
  have e3: "estimate_NeighborhoodWithBaseline cancel_nb 3 1 = 405 / 143"
  proof -
    from estimate_NeighborhoodWithBaseline_values [OF xy3] obtain srt where
      st: "\<And>c. [p \<leftarrow> srt. AlgoNeighborhoodWithBaseline.simMat cancel_nb 3 (fst p) = c]
              = [p \<leftarrow> dget (yr cancel_nb) (Suc 0).
                   AlgoNeighborhoodWithBaseline.simMat cancel_nb 3 (fst p) = c]"
      and v: "let top = take 40 srt;
                 W = (\<Sum>(x, r) \<leftarrow> top. AlgoNeighborhoodWithBaseline.simMat cancel_nb 3 x);
                 D = (\<Sum>(x, r) \<leftarrow> top. (real_of_int r - (mu cancel_nb + xBiases cancel_nb x
                                                        + yBiases cancel_nb (Suc 0)))
                        * AlgoNeighborhoodWithBaseline.simMat cancel_nb 3 x) / W
             in (dget (yr cancel_nb) (Suc 0) = [] \<or> W = 0 \<longrightarrow>
                   estimate_NeighborhoodWithBaseline cancel_nb 3 1
                     = mu cancel_nb + xBiases cancel_nb 3 + yBiases cancel_nb (Suc 0))
              \<and> (dget (yr cancel_nb) (Suc 0) \<noteq> [] \<and> W \<noteq> 0 \<longrightarrow>
                   estimate_NeighborhoodWithBaseline cancel_nb 3 1
                     = mu cancel_nb + xBiases cancel_nb 3 + yBiases cancel_nb (Suc 0) + D)"
      by blast
    have "srt = [(2, 1)]"
      using stable_short [where srt = srt and xs = "dget (yr cancel_nb) (Suc 0)", OF st] y by simp
    with v show ?thesis
      by (simp add: Let_def y cancel_sims f)
  qed
  have e9: "estimate_NeighborhoodWithBaseline cancel_nb 1 9 = 5 / 2"
    using estimate_NeighborhoodWithBaseline_values [OF xy9]
    by (auto simp: Let_def y f)
  from xy1 xy3 xy9 e1 e3 e9 show ?thesis by simp
qed

subsection \<open>The geometric analogy estimate\<close>












end
